theory Spec2Isabelle
  imports Main
begin

section \<open>The guest registry service of \<^verbatim>\<open>src/app.ts\<close>\<close>

text \<open>
  The service registers three RPC handlers on a gRPC server (\<^verbatim>\<open>checkInGuest\<close>,
  \<^verbatim>\<open>getGuestByLastNameAndRoom\<close>, \<^verbatim>\<open>incrementWifiLoginCount\<close>) and starts an event
  bridge (\<^verbatim>\<open>subscribeToGuestEvents\<close>) once the server is bound. The two copies of the
  file differ in logging and in how the endpoints are configured only; the model follows
  both.

  Every handler destructures its request first, so the handlers of the model take the
  request's fields as arguments. A handler answers through its callback, either
  \<^verbatim>\<open>callback(err, null)\<close> or \<^verbatim>\<open>callback(null, response)\<close>: the model returns
  \<open>Inl err\<close> or \<open>Inr response\<close>, together with the store after the call.
\<close>

subsection \<open>Strings\<close>

text \<open>
  \<^verbatim>\<open>String.prototype.toLowerCase\<close> on the ASCII range: the letters A to Z (codes 65 to
  90) move to a to z, every other character is kept. Names outside ASCII are not covered
  by this model.
\<close>

definition toLowerCaseChar :: "char \<Rightarrow> char" where
  "toLowerCaseChar c =
     (let n = (of_char c :: nat) in if 65 \<le> n \<and> n \<le> 90 then char_of (n + 32) else c)"

definition toLowerCase :: "string \<Rightarrow> string" where
  "toLowerCase s = map toLowerCaseChar s"

subsection \<open>Errors\<close>

text \<open>
  The error object a handler passes to its callback (gRPC's \<^verbatim>\<open>ServiceError\<close>), the error
  object of the store's client, and a JavaScript exception (a rejected promise).
\<close>

record ServiceError =
  name :: string
  message :: string
  code :: nat
  details :: string
  metadata :: "(string \<times> string) list"

datatype PostgrestError =
  PostgrestError (pg_message: string) (pg_details: string) (pg_hint: string) (pg_code: string)

datatype js_error = SyntaxError | TypeError | OtherError string

text \<open>The object literal of \<^verbatim>\<open>getGuestByLastNameAndRoom\<close> for a missing guest.\<close>

definition NoUserError :: ServiceError where
  "NoUserError =
     \<lparr>name = ''NoUserError'', message = ''No user found'', code = 13,
      details = ''No user found'', metadata = []\<rparr>"

text \<open>
  \<^verbatim>\<open>generateServiceError\<close> is imported from \<^verbatim>\<open>./utils\<close>, which is not among the sources:
  every handler takes it as its first argument, a function from the store's error to the
  error of the callback.
\<close>

type_synonym generateServiceError = "PostgrestError \<Rightarrow> ServiceError"

subsection \<open>The guest store\<close>

text \<open>
  The table \<^verbatim>\<open>guests\<close> with the columns the handlers read and write, and the requests
  the store has received from the handlers, oldest first.
\<close>

record row =
  id' :: nat
  first_name :: string
  last_name :: string
  room_number :: int
  wifi_login_count :: int

datatype store_request =
    Insert string string int
  | SelectSingle string int
  | Rpc string string int

record store =
  guests :: "row list"
  received :: "store_request list"

text \<open>
  Each call of the store takes a fault: \<open>Some e\<close> when the backend fails with \<open>e\<close>
  whatever the table holds (connectivity, a constraint), and then the table is unchanged.
\<close>

definition next_id :: "row list \<Rightarrow> nat" where
  "next_id rs = Suc (fold max (map id' rs) 0)"

text \<open>
  Modelled from the spec: the schema of \<^verbatim>\<open>guests\<close> is not among the sources. The store
  assigns the \<^verbatim>\<open>id\<close> on insert and \<^verbatim>\<open>wifi_login_count\<close> starts at 0; an insert is one
  atomic operation, answered by \<^verbatim>\<open>{ error }\<close>.
\<close>

definition insert_guest ::
  "PostgrestError option \<Rightarrow> string \<Rightarrow> string \<Rightarrow> int \<Rightarrow> store \<Rightarrow> PostgrestError option \<times> store" where
  "insert_guest fault fn ln rn s =
     (let s' = s\<lparr>received := received s @ [Insert fn ln rn]\<rparr> in
      case fault of
        Some e \<Rightarrow> (Some e, s')
      | None \<Rightarrow>
          (None,
           s'\<lparr>guests := guests s @
              [\<lparr>id' = next_id (guests s), first_name = fn, last_name = ln,
                room_number = rn, wifi_login_count = 0\<rparr>]\<rparr>))"

text \<open>
  \<^verbatim>\<open>.select("*").eq("last_name", ln).eq("room_number", rn).single()\<close>. The client's
  \<^verbatim>\<open>single()\<close> asks for the result as one object: the result must be exactly one row,
  otherwise the answer carries no data and the error PGRST116 (this is what tells it from
  \<^verbatim>\<open>maybeSingle()\<close>, which answers zero rows with no data and no error). The answer is
  \<^verbatim>\<open>{ data, error }\<close>.
\<close>

definition not_single_row :: PostgrestError where
  "not_single_row =
     PostgrestError ''JSON object requested, multiple (or no) rows returned'' [] [] ''PGRST116''"

definition matching :: "string \<Rightarrow> int \<Rightarrow> row list \<Rightarrow> row list" where
  "matching ln rn rs = filter (\<lambda>r. last_name r = ln \<and> room_number r = rn) rs"

definition select_single ::
  "PostgrestError option \<Rightarrow> string \<Rightarrow> int \<Rightarrow> store
     \<Rightarrow> (row option \<times> PostgrestError option) \<times> store" where
  "select_single fault ln rn s =
     (let s' = s\<lparr>received := received s @ [SelectSingle ln rn]\<rparr> in
      case fault of
        Some e \<Rightarrow> ((None, Some e), s')
      | None \<Rightarrow>
          (case matching ln rn (guests s) of
             [r] \<Rightarrow> ((Some r, None), s')
           | _ \<Rightarrow> ((None, Some not_single_row), s')))"

text \<open>
  Modelled from the spec: the database function \<^verbatim>\<open>increment_wifi_login_count\<close> is not
  among the sources. It is the store's atomic increment, keyed by the surname and the room
  number, answered by \<^verbatim>\<open>{ error }\<close>.
\<close>

definition rpc_increment_wifi_login_count ::
  "PostgrestError option \<Rightarrow> string \<Rightarrow> int \<Rightarrow> store \<Rightarrow> PostgrestError option \<times> store" where
  "rpc_increment_wifi_login_count fault ln rn s =
     (let s' = s\<lparr>received := received s @ [Rpc ''increment_wifi_login_count'' ln rn]\<rparr> in
      case fault of
        Some e \<Rightarrow> (Some e, s')
      | None \<Rightarrow>
          (None,
           s'\<lparr>guests :=
                map (\<lambda>r. if last_name r = ln \<and> room_number r = rn
                          then r\<lparr>wifi_login_count := wifi_login_count r + 1\<rparr> else r)
                    (guests s)\<rparr>))"

subsection \<open>The RPC handlers\<close>

record Guest =
  guest_id :: nat
  guest_firstName :: string
  guest_lastName :: string
  guest_roomNumber :: int
  guest_wifiLoginCount :: int

text \<open>
  A handler whose promise rejects before it reaches a callback leaves the call unanswered.
\<close>

datatype 'a reply = Callback "ServiceError + 'a" | Unanswered js_error

text \<open>
  \<^verbatim>\<open>checkInGuest\<close>. \<^verbatim>\<open>generateRoomNumber\<close> is imported from \<^verbatim>\<open>./utils\<close>, which is not
  among the sources: \<open>allocated\<close> is what \<^verbatim>\<open>await generateRoomNumber()\<close> gives, a room
  number or an exception. The response \<^verbatim>\<open>{ roomNumber }\<close> is the number.
\<close>

definition checkInGuest ::
  "generateServiceError \<Rightarrow> js_error + int \<Rightarrow> PostgrestError option \<Rightarrow> string \<Rightarrow> string \<Rightarrow> store
     \<Rightarrow> int reply \<times> store" where
  "checkInGuest gse allocated fault firstName lastName s =
     (case allocated of
        Inl e \<Rightarrow> (Unanswered e, s)
      | Inr roomNumber \<Rightarrow>
          (let (error, s') =
                 insert_guest fault (toLowerCase firstName) (toLowerCase lastName) roomNumber s
           in case error of
                Some e \<Rightarrow> (Callback (Inl (gse e)), s')
              | None \<Rightarrow> (Callback (Inr roomNumber), s')))"

definition getGuestByLastNameAndRoom ::
  "generateServiceError \<Rightarrow> PostgrestError option \<Rightarrow> string \<Rightarrow> int \<Rightarrow> store
     \<Rightarrow> (ServiceError + Guest) \<times> store" where
  "getGuestByLastNameAndRoom gse fault lastName roomNumber s =
     (let ((data, error), s') = select_single fault (toLowerCase lastName) roomNumber s
      in case error of
           Some e \<Rightarrow> (Inl (gse e), s')
         | None \<Rightarrow>
             (case data of
                None \<Rightarrow> (Inl NoUserError, s')
              | Some d \<Rightarrow>
                  (Inr \<lparr>guest_id = id' d, guest_firstName = first_name d,
                        guest_lastName = last_name d, guest_roomNumber = room_number d,
                        guest_wifiLoginCount = wifi_login_count d\<rparr>,
                   s')))"

text \<open>\<^verbatim>\<open>incrementWifiLoginCount\<close>; the response \<^verbatim>\<open>{ success: true }\<close> is the flag.\<close>

definition incrementWifiLoginCount ::
  "generateServiceError \<Rightarrow> PostgrestError option \<Rightarrow> string \<Rightarrow> int \<Rightarrow> store
     \<Rightarrow> (ServiceError + bool) \<times> store" where
  "incrementWifiLoginCount gse fault lastName roomNumber s =
     (let (error, s') =
            rpc_increment_wifi_login_count fault (toLowerCase lastName) roomNumber s
      in case error of
           Some e \<Rightarrow> (Inl (gse e), s')
         | None \<Rightarrow> (Inr True, s'))"

subsection \<open>The event bridge\<close>

text \<open>
  A message's payload goes through \<^verbatim>\<open>JSON.parse(sc.decode(msg.data))\<close>, which returns a
  JSON value or throws a \<^verbatim>\<open>SyntaxError\<close>: a message is modelled by that outcome. The
  numbers of the payloads are integers; the bridge never computes with them. A JavaScript
  value read from a property is a JSON value or \<^verbatim>\<open>undefined\<close> (\<open>None\<close>).
\<close>

datatype json =
    JNull
  | JBool bool
  | JNumber int
  | JString string
  | JArray "json list"
  | JObject "(string \<times> json) list"

type_synonym js_value = "json option"

type_synonym msg = "js_error + json"

text \<open>
  Reading a property \<^verbatim>\<open>v.p\<close>: a \<^verbatim>\<open>TypeError\<close> on \<^verbatim>\<open>null\<close> and \<^verbatim>\<open>undefined\<close>; on an
  object the member of that name (the last one, where the text repeated the name) or
  \<^verbatim>\<open>undefined\<close>; on a number, a string, a boolean or an array \<^verbatim>\<open>undefined\<close>, for the
  four names the bridge reads (\<^verbatim>\<open>event\<close>, \<^verbatim>\<open>data\<close>, \<^verbatim>\<open>lastName\<close>, \<^verbatim>\<open>roomNumber\<close>),
  none of which is a property of a built-in prototype.
\<close>

fun getProp :: "js_value \<Rightarrow> string \<Rightarrow> js_error + js_value" where
  "getProp None p = Inl TypeError"
| "getProp (Some JNull) p = Inl TypeError"
| "getProp (Some (JObject fs)) p = Inr (map_of (rev fs) p)"
| "getProp (Some v) p = Inr None"

text \<open>
  The call \<^verbatim>\<open>client.incrementWifiLoginCount(request, ...)\<close> with the two fields of the
  request as the bridge built them: whatever \<^verbatim>\<open>data.lastName\<close> and \<^verbatim>\<open>data.roomNumber\<close>
  were. The callback of the call only logs.
\<close>

datatype rpc_call = IncrementWifiLoginCount js_value js_value

text \<open>
  The body of the \<^verbatim>\<open>for await\<close> loop for one message: the calls it issues, or the
  exception that leaves it. Nothing in the loop catches an exception.
\<close>

definition onMessage :: "msg \<Rightarrow> js_error + rpc_call list" where
  "onMessage m =
     (case m of
        Inl e \<Rightarrow> Inl e
      | Inr guestData \<Rightarrow>
          (case getProp (Some guestData) ''event'' of
             Inl e \<Rightarrow> Inl e
           | Inr event \<Rightarrow>
               if event = Some (JString ''increment.wifi.login.count'') then
                 (case getProp (Some guestData) ''data'' of
                    Inl e \<Rightarrow> Inl e
                  | Inr data \<Rightarrow>
                      (case getProp data ''lastName'' of
                         Inl e \<Rightarrow> Inl e
                       | Inr lastName \<Rightarrow>
                           (case getProp data ''roomNumber'' of
                              Inl e \<Rightarrow> Inl e
                            | Inr roomNumber \<Rightarrow>
                                Inr [IncrementWifiLoginCount lastName roomNumber])))
               else Inr []))"

text \<open>
  The loop over the messages of the subscription, in delivery order: the calls issued, and
  the exception that ended the loop, if one did. An exception ends the loop: the messages
  after it are not read.
\<close>

fun consume :: "msg list \<Rightarrow> rpc_call list \<times> js_error option" where
  "consume [] = ([], None)"
| "consume (m # ms) =
     (case onMessage m of
        Inl e \<Rightarrow> ([], Some e)
      | Inr calls \<Rightarrow> (let (calls', r) = consume ms in (calls @ calls', r)))"






section \<open>Properties\<close>

subsection \<open>Lower-casing\<close>

lemma toLowerCaseChar_idem: "toLowerCaseChar (toLowerCaseChar c) = toLowerCaseChar c"
  by (simp add: toLowerCaseChar_def Let_def)

lemma toLowerCase_idem: "toLowerCase (toLowerCase s) = toLowerCase s"
  by (simp add: toLowerCase_def toLowerCaseChar_idem)

lemma toLowerCase_Nil: "toLowerCase [] = []"
  by (simp add: toLowerCase_def)

subsection \<open>Check-in\<close>

text \<open>The three ways through \<open>checkInGuest\<close>.\<close>

lemma checkInGuest_inserted:
  "checkInGuest gse (Inr roomNumber) None firstName lastName s =
     (Callback (Inr roomNumber),
      s\<lparr>received := received s @ [Insert (toLowerCase firstName) (toLowerCase lastName) roomNumber],
        guests := guests s @
          [\<lparr>id' = next_id (guests s), first_name = toLowerCase firstName,
            last_name = toLowerCase lastName, room_number = roomNumber,
            wifi_login_count = 0\<rparr>]\<rparr>)"
  by (simp add: checkInGuest_def insert_guest_def Let_def)

lemma checkInGuest_failed:
  "checkInGuest gse (Inr roomNumber) (Some e) firstName lastName s =
     (Callback (Inl (gse e)),
      s\<lparr>received := received s @ [Insert (toLowerCase firstName) (toLowerCase lastName) roomNumber]\<rparr>)"
  by (simp add: checkInGuest_def insert_guest_def Let_def)

lemma checkInGuest_unallocated:
  "checkInGuest gse (Inl x) fault firstName lastName s = (Unanswered x, s)"
  by (simp add: checkInGuest_def)

lemma checkInGuest_success:
  assumes "checkInGuest gse allocated fault firstName lastName s = (Callback (Inr R), s')"
  shows "allocated = Inr R \<and> fault = None"
  using assms
  by (cases allocated; cases fault)
     (simp_all add: checkInGuest_unallocated checkInGuest_failed checkInGuest_inserted)

lemma checkInGuest_success_guests:
  assumes "checkInGuest gse allocated fault firstName lastName s = (Callback (Inr R), s')"
  shows "guests s' = guests s @
           [\<lparr>id' = next_id (guests s), first_name = toLowerCase firstName,
             last_name = toLowerCase lastName, room_number = R, wifi_login_count = 0\<rparr>]"
proof -
  from assms have a: "allocated = Inr R" and f: "fault = None"
    using checkInGuest_success by blast+
  have "s' = snd (checkInGuest gse (Inr R) None firstName lastName s)"
    using assms a f by simp
  then show ?thesis
    by (simp add: checkInGuest_inserted)
qed

text \<open>
  C6: a check-in that succeeds (its callback gets the response with room number \<open>R\<close>) got
  \<open>R\<close> from the room allocator and has appended to the table one row with the lower-cased
  first name, the lower-cased last name and \<open>R\<close>. In particular the check-ins of
  Jane DOE and of jane doe leave the same table behind.
\<close>

theorem checkIn_stores_lower_cased_names:
  assumes "checkInGuest gse allocated fault firstName lastName s = (Callback (Inr R), s')"
  shows "allocated = Inr R \<and>
         guests s' = guests s @
           [\<lparr>id' = next_id (guests s), first_name = toLowerCase firstName,
             last_name = toLowerCase lastName, room_number = R, wifi_login_count = 0\<rparr>] \<and>
         guests (snd (checkInGuest gse (Inr n) None ''Jane'' ''DOE'' t)) =
         guests (snd (checkInGuest gse (Inr n) None ''jane'' ''doe'' t))"
proof -
  have j: "toLowerCase ''Jane'' = toLowerCase ''jane''" by code_simp
  have d: "toLowerCase ''DOE'' = toLowerCase ''doe''" by code_simp
  show ?thesis
    using checkInGuest_success [OF assms] checkInGuest_success_guests [OF assms]
    by (simp add: checkInGuest_inserted j d)
qed

theorem checkIn_stores_lower_cased_names_witness:
  "guests (snd (checkInGuest (\<lambda>e. NoUserError) (Inr 101) None ''Jane'' ''DOE''
                  \<lparr>guests = [], received = []\<rparr>)) =
     [\<lparr>id' = 1, first_name = ''jane'', last_name = ''doe'', room_number = 101,
       wifi_login_count = 0\<rparr>]"
proof -
  have j: "toLowerCase ''Jane'' = ''jane''" by code_simp
  have d: "toLowerCase ''DOE'' = ''doe''" by code_simp
  have c: "checkInGuest (\<lambda>e. NoUserError) (Inr 101) None ''Jane'' ''DOE''
             \<lparr>guests = [], received = []\<rparr> =
           (Callback (Inr 101),
            snd (checkInGuest (\<lambda>e. NoUserError) (Inr 101) None ''Jane'' ''DOE''
                   \<lparr>guests = [], received = []\<rparr>))"
    by (simp add: checkInGuest_inserted)
  note th = checkIn_stores_lower_cased_names [OF c, THEN conjunct2, THEN conjunct1]
  show ?thesis
    unfolding th by (simp add: j d next_id_def)
qed

text \<open>
  C10: \<open>checkInGuest\<close> validates nothing. Whatever the two names are, once a room number
  is allocated the insert of the lower-cased names goes to the store; the call succeeds
  when the insert does; the only error the callback can get is the store's error, mapped;
  and two empty names are inserted as they are.
\<close>

theorem checkIn_never_validates:
  "received (snd (checkInGuest gse (Inr roomNumber) fault firstName lastName s)) =
     received s @ [Insert (toLowerCase firstName) (toLowerCase lastName) roomNumber] \<and>
   fst (checkInGuest gse (Inr roomNumber) None firstName lastName s) = Callback (Inr roomNumber) \<and>
   fst (checkInGuest gse (Inr roomNumber) (Some e) firstName lastName s) = Callback (Inl (gse e)) \<and>
   checkInGuest gse (Inr roomNumber) None [] [] s =
     (Callback (Inr roomNumber),
      s\<lparr>received := received s @ [Insert [] [] roomNumber],
        guests := guests s @
          [\<lparr>id' = next_id (guests s), first_name = [], last_name = [],
            room_number = roomNumber, wifi_login_count = 0\<rparr>]\<rparr>)"
proof -
  have r: "received (snd (checkInGuest gse (Inr roomNumber) fault firstName lastName s)) =
     received s @ [Insert (toLowerCase firstName) (toLowerCase lastName) roomNumber]"
    by (cases fault) (simp_all add: checkInGuest_inserted checkInGuest_failed)
  show ?thesis
    using r checkInGuest_inserted [of gse roomNumber "[]" "[]" s]
    by (simp add: checkInGuest_inserted checkInGuest_failed toLowerCase_Nil)
qed

theorem checkIn_never_validates_witness:
  "checkInGuest (\<lambda>e. NoUserError) (Inr 5) None [] [] \<lparr>guests = [], received = []\<rparr> =
     (Callback (Inr 5),
      \<lparr>guests = [\<lparr>id' = 1, first_name = [], last_name = [], room_number = 5,
                   wifi_login_count = 0\<rparr>],
       received = [Insert [] [] 5]\<rparr>)"
  using checkIn_never_validates
          [of "\<lambda>e. NoUserError" 5 None "[]" "[]" "\<lparr>guests = [], received = []\<rparr>"]
  by (simp add: next_id_def)

subsection \<open>Wi-Fi login count\<close>

lemma incrementWifiLoginCount_ok:
  "incrementWifiLoginCount gse None lastName roomNumber s =
     (Inr True, snd (rpc_increment_wifi_login_count None (toLowerCase lastName) roomNumber s))"
  by (simp add: incrementWifiLoginCount_def rpc_increment_wifi_login_count_def Let_def)

lemma incrementWifiLoginCount_error:
  "incrementWifiLoginCount gse (Some e) lastName roomNumber s =
     (Inl (gse e),
      s\<lparr>received := received s @
          [Rpc ''increment_wifi_login_count'' (toLowerCase lastName) roomNumber]\<rparr>)"
  by (simp add: incrementWifiLoginCount_def rpc_increment_wifi_login_count_def Let_def)

lemma rpc_increment_received:
  "received (snd (rpc_increment_wifi_login_count fault ln rn s)) =
     received s @ [Rpc ''increment_wifi_login_count'' ln rn]"
  by (cases fault) (simp_all add: rpc_increment_wifi_login_count_def Let_def)

text \<open>
  C8: \<open>incrementWifiLoginCount\<close> sends the store one request, the call of the increment
  function with the lower-cased last name and the room number (no select before it); its
  answer is \<^verbatim>\<open>success = true\<close> exactly when the store reports no error; and on a store
  error the answer is that error, mapped, which is not a success.
\<close>

theorem increment_only_calls_atomic_primitive:
  "received (snd (incrementWifiLoginCount gse fault lastName roomNumber s)) =
     received s @ [Rpc ''increment_wifi_login_count'' (toLowerCase lastName) roomNumber] \<and>
   (fst (incrementWifiLoginCount gse fault lastName roomNumber s) = Inr True) = (fault = None) \<and>
   fst (incrementWifiLoginCount gse (Some e) lastName roomNumber s) = Inl (gse e)"
  by (cases fault)
     (simp_all add: incrementWifiLoginCount_ok incrementWifiLoginCount_error
        rpc_increment_received)

theorem increment_only_calls_atomic_primitive_witness:
  "received (snd (incrementWifiLoginCount (\<lambda>e. NoUserError) None ''DOE'' 101
                    \<lparr>guests = [], received = []\<rparr>)) =
     [Rpc ''increment_wifi_login_count'' ''doe'' 101]"
proof -
  have d: "toLowerCase ''DOE'' = ''doe''" by code_simp
  note th = increment_only_calls_atomic_primitive
              [of "\<lambda>e. NoUserError" None "''DOE''" 101 "\<lparr>guests = [], received = []\<rparr>",
               THEN conjunct1]
  show ?thesis
    unfolding th by (simp add: d)
qed

subsection \<open>Lookup\<close>

text \<open>
  Every error \<open>getGuestByLastNameAndRoom\<close> answers with is a mapped error of the store:
  the branch for absent data is never reached, since \<^verbatim>\<open>single()\<close> gives an error whenever
  it gives no data.
\<close>

lemma getGuest_error_is_mapped:
  assumes "fst (getGuestByLastNameAndRoom gse fault lastName roomNumber s) = Inl x"
  shows "\<exists>e. x = gse e"
  using assms
  by (auto simp: getGuestByLastNameAndRoom_def select_single_def Let_def
           split: option.splits list.splits)

text \<open>Whenever no row matches and the store works, the answer is the mapped error.\<close>

lemma getGuest_zero_rows:
  assumes "matching (toLowerCase lastName) roomNumber (guests s) = []"
  shows "fst (getGuestByLastNameAndRoom gse None lastName roomNumber s) =
           Inl (gse not_single_row)"
  using assms by (simp add: getGuestByLastNameAndRoom_def select_single_def Let_def)

text \<open>
  C1: the lookup of \<^verbatim>\<open>("nobody", 999)\<close> in an empty store. The store reports the zero rows
  as the error of \<^verbatim>\<open>single()\<close>, and the handler answers with that error mapped by
  \<^verbatim>\<open>generateServiceError\<close>, the uniform store error, not with \<open>NoUserError\<close>.
\<close>

theorem absent_guest_gets_store_error:
  "getGuestByLastNameAndRoom gse None ''nobody'' 999 \<lparr>guests = [], received = []\<rparr> =
     (Inl (gse not_single_row), \<lparr>guests = [], received = [SelectSingle ''nobody'' 999]\<rparr>)"
proof -
  have n: "toLowerCase ''nobody'' = ''nobody''" by code_simp
  show ?thesis
    by (simp add: getGuestByLastNameAndRoom_def select_single_def matching_def Let_def n)
qed






subsection \<open>The event bridge\<close>

lemma getProp_not_null:
  assumes "v \<noteq> JNull"
  shows "\<exists>x. getProp (Some v) p = Inr x"
  using assms by (cases v) simp_all

text \<open>
  C2, as the spec has it, fails: a payload that does not parse ends the loop, and the
  recognized event delivered after it issues no call, which it does when it comes alone.
\<close>

theorem malformed_payload_counterexample:
  "consume [Inl SyntaxError,
            Inr (JObject [(''event'', JString ''increment.wifi.login.count''),
                          (''data'', JObject [(''lastName'', JString ''doe''),
                                              (''roomNumber'', JNumber 101)])])]
     = ([], Some SyntaxError) \<and>
   consume [Inr (JObject [(''event'', JString ''increment.wifi.login.count''),
                          (''data'', JObject [(''lastName'', JString ''doe''),
                                              (''roomNumber'', JNumber 101)])])]
     = ([IncrementWifiLoginCount (Some (JString ''doe'')) (Some (JNumber 101))], None)"
  by (simp add: onMessage_def)

text \<open>
  C2, amended: a payload that does not parse, and one that parses to \<^verbatim>\<open>null\<close>, end the
  loop with their exception: no call is issued for the message and no later message is
  read. A payload that parses to a boolean, a number, a string or an array is skipped: no
  call, and the loop goes on with the next message.
\<close>

theorem malformed_payload_ends_loop:
  "consume (Inl e # ms) = ([], Some e) \<and>
   consume (Inr JNull # ms) = ([], Some TypeError) \<and>
   consume (Inr (JBool b) # ms) = consume ms \<and>
   consume (Inr (JNumber n) # ms) = consume ms \<and>
   consume (Inr (JString t) # ms) = consume ms \<and>
   consume (Inr (JArray vs) # ms) = consume ms"
  by (simp add: onMessage_def)

text \<open>
  C4, as the spec has it, fails twice: an event with the recognized tag and no \<^verbatim>\<open>data\<close>
  issues no call (reading \<^verbatim>\<open>lastName\<close> of \<^verbatim>\<open>undefined\<close> throws), and the call for the
  last name DOE carries DOE, not its lower-cased form.
\<close>

theorem recognized_event_counterexample:
  "onMessage (Inr (JObject [(''event'', JString ''increment.wifi.login.count'')])) =
     Inl TypeError \<and>
   onMessage (Inr (JObject [(''event'', JString ''increment.wifi.login.count''),
                            (''data'', JObject [(''lastName'', JString ''DOE''),
                                                (''roomNumber'', JNumber 101)])]))
     = Inr [IncrementWifiLoginCount (Some (JString ''DOE'')) (Some (JNumber 101))] \<and>
   toLowerCase ''DOE'' = ''doe''"
proof -
  have d: "toLowerCase ''DOE'' = ''doe''" by code_simp
  show ?thesis by (simp add: onMessage_def d)
qed

text \<open>
  C4, amended: for a message whose \<^verbatim>\<open>event\<close> is the recognized tag and whose \<^verbatim>\<open>data\<close> is
  there and not \<^verbatim>\<open>null\<close>, the bridge issues exactly one call, carrying \<^verbatim>\<open>data.lastName\<close>
  and \<^verbatim>\<open>data.roomNumber\<close> as the payload has them, and goes on with the next message.
\<close>

theorem recognized_event_issues_one_call:
  assumes "getProp (Some guestData) ''event'' =
             Inr (Some (JString ''increment.wifi.login.count''))"
      and "getProp (Some guestData) ''data'' = Inr (Some data)"
      and "data \<noteq> JNull"
  shows "\<exists>lastName roomNumber.
           getProp (Some data) ''lastName'' = Inr lastName \<and>
           getProp (Some data) ''roomNumber'' = Inr roomNumber \<and>
           onMessage (Inr guestData) = Inr [IncrementWifiLoginCount lastName roomNumber] \<and>
           consume (Inr guestData # ms) =
             (IncrementWifiLoginCount lastName roomNumber # fst (consume ms), snd (consume ms))"
proof -
  from assms(3) obtain ln where ln: "getProp (Some data) ''lastName'' = Inr ln"
    using getProp_not_null by blast
  from assms(3) obtain rn where rn: "getProp (Some data) ''roomNumber'' = Inr rn"
    using getProp_not_null by blast
  have "onMessage (Inr guestData) = Inr [IncrementWifiLoginCount ln rn]"
    by (simp add: onMessage_def assms(1,2) ln rn)
  then show ?thesis
    using ln rn by (simp add: case_prod_unfold Let_def)
qed

theorem recognized_event_issues_one_call_witness:
  "onMessage (Inr (JObject [(''event'', JString ''increment.wifi.login.count''),
                            (''data'', JObject [(''lastName'', JString ''doe''),
                                                (''roomNumber'', JNumber 101)])]))
     = Inr [IncrementWifiLoginCount (Some (JString ''doe'')) (Some (JNumber 101))]"
proof -
  let ?d = "JObject [(''lastName'', JString ''doe''), (''roomNumber'', JNumber 101)]"
  let ?m = "JObject [(''event'', JString ''increment.wifi.login.count''), (''data'', ?d)]"
  have a: "getProp (Some ?m) ''event'' = Inr (Some (JString ''increment.wifi.login.count''))"
    by simp
  have b: "getProp (Some ?m) ''data'' = Inr (Some ?d)"
    by simp
  have c: "?d \<noteq> JNull"
    by simp
  show ?thesis
    using recognized_event_issues_one_call [OF a b c, of "[]"] by auto
qed

text \<open>
  C5: a payload that parses to a value other than \<^verbatim>\<open>null\<close> and whose \<^verbatim>\<open>event\<close> is not
  the recognized tag issues no call and raises nothing; the loop goes on with the next
  message.
\<close>

theorem unknown_event_is_no_op:
  assumes "guestData \<noteq> JNull"
      and "getProp (Some guestData) ''event'' \<noteq>
             Inr (Some (JString ''increment.wifi.login.count''))"
  shows "onMessage (Inr guestData) = Inr [] \<and> consume (Inr guestData # ms) = consume ms"
proof -
  from assms(1) obtain x where x: "getProp (Some guestData) ''event'' = Inr x"
    using getProp_not_null by blast
  with assms(2) have "x \<noteq> Some (JString ''increment.wifi.login.count'')"
    by simp
  with x have "onMessage (Inr guestData) = Inr []"
    by (simp add: onMessage_def)
  then show ?thesis
    by simp
qed

theorem unknown_event_is_no_op_witness:
  "onMessage (Inr (JObject [(''event'', JString ''guest.checked.out''), (''data'', JObject [])]))
     = Inr [] \<and>
   consume [Inr (JObject [(''event'', JString ''guest.checked.out''), (''data'', JObject [])])]
     = ([], None)"
proof -
  let ?m = "JObject [(''event'', JString ''guest.checked.out''), (''data'', JObject [])]"
  have a: "?m \<noteq> JNull"
    by simp
  have b: "getProp (Some ?m) ''event'' \<noteq> Inr (Some (JString ''increment.wifi.login.count''))"
    by simp
  show ?thesis
    using unknown_event_is_no_op [OF a b, of "[]"] by simp
qed




end
